theory Spec2Isabelle
  imports Complex_Main "HOL-Library.AList"
begin

section \<open>Conventions of the embedding\<close>

text \<open>
  The program is \<^verbatim>\<open>src/main.py\<close>. Its SQLite tables are fields of one record
  \<open>database\<close> that every method takes and returns; a method that raises returns
  \<open>Inl\<close> of the exception together with the database as it stands at that moment,
  because every \<^verbatim>\<open>with self.db.get_connection()\<close> block commits on its own.

  \<^verbatim>\<open>get_connection\<close> holds \<^verbatim>\<open>self.lock\<close>, a \<^verbatim>\<open>threading.Lock\<close>,
  for the whole \<^verbatim>\<open>with\<close> block, and that lock is not reentrant: a method that
  opens a connection while its caller is still inside such a block waits for the lock for
  ever. A call that never returns has the result \<open>None\<close>; a call that returns or
  raises has \<open>Some\<close> of its outcome.

  Python floats are modelled as \<open>real\<close> numbers: the literals \<^verbatim>\<open>0.1\<close>,
  \<^verbatim>\<open>0.3\<close>, \<^verbatim>\<open>0.7\<close> are the exact decimal fractions and \<^verbatim>\<open>+\<close>, \<^verbatim>\<open>*\<close>,
  \<^verbatim>\<open>/\<close> do not round. Python ints are \<open>int\<close>. A Python \<^verbatim>\<open>str\<close> is a
  \<open>string\<close>, one \<open>char\<close> per character. A \<^verbatim>\<open>dict\<close> whose iteration order the
  program depends on is an association list in insertion order (\<open>map_of\<close> looks a key
  up, \<open>AList.update\<close> assigns in place or appends); \<^verbatim>\<open>json.dumps\<close> followed by
  \<^verbatim>\<open>json.loads\<close> is the identity on such values. Text of the source
  outside ASCII is spelled as its UTF-8 bytes; the program measures the length of no such
  literal on the paths modelled here. The column \<^verbatim>\<open>updated_at\<close>, the
  in-memory statistics and the log output are left out.
\<close>

datatype py_error = KeyError string | IndexError | ValueError | RemoteFailure

section \<open>String helpers\<close>

text \<open>\<^verbatim>\<open>s.split(sep)\<close> for a one-character separator: one more piece than separators.\<close>

fun split_on :: "char \<Rightarrow> string \<Rightarrow> string list" where
  "split_on sep [] = [[]]"
| "split_on sep (c # cs) =
     (if c = sep then [] # split_on sep cs
      else (case split_on sep cs of [] \<Rightarrow> [[c]] | w # ws \<Rightarrow> (c # w) # ws))"

text \<open>\<^verbatim>\<open>sep.join(words)\<close>.\<close>

fun join_with :: "char \<Rightarrow> string list \<Rightarrow> string" where
  "join_with sep [] = []"
| "join_with sep [w] = w"
| "join_with sep (w # v # ws) = w @ sep # join_with sep (v # ws)"

text \<open>How an f-string renders a value that may be \<^verbatim>\<open>None\<close>.\<close>

fun fmt :: "string option \<Rightarrow> string" where
  "fmt None = ''None''"
| "fmt (Some s) = s"

section \<open>Tables\<close>

record feedback_counts =
  likes :: int
  dislikes :: int

record learning_data =
  positive_feedback :: int
  negative_feedback :: int
  learned_patterns :: "(string \<times> feedback_counts) list"

text \<open>The dictionary that \<^verbatim>\<open>get_user_preferences\<close> returns.\<close>

record preferences =
  preferred_categories :: "string list"
  importance_weights :: "(string \<times> real) list"
  notification_frequency :: string
  learning :: learning_data

text \<open>A row of \<^verbatim>\<open>user_preferences\<close>: the categories are one comma-separated text.\<close>

record preferences_row =
  row_preferred_categories :: string
  row_importance_weights :: "(string \<times> real) list"
  row_notification_frequency :: string
  row_learning_data :: learning_data

record user_row =
  u_user_id :: int
  username :: "string option"
  first_name :: "string option"
  subscribed :: bool

text \<open>Timestamps are seconds on a clock that the caller reads and passes in.\<close>

record site_row =
  site_id :: int
  site_user_id :: int
  url :: string
  site_name :: string
  css_selector :: "string option"
  last_hash :: "string option"
  last_content :: "string option"
  check_interval :: nat
  enabled :: bool
  last_checked :: "nat option"

record feedback_row =
  f_user_id :: int
  f_notification_id :: string
  f_feedback_type :: string
  f_change_category :: "string option"
  f_importance_level :: "string option"

record history_row =
  h_user_id :: int
  h_notification_id :: string
  h_site_name :: "string option"
  h_change_category :: "string option"
  h_importance_level :: "string option"
  feedback_received :: bool

record error_row =
  e_site_id :: int
  error_type :: string
  error_message :: string

record database =
  users :: "user_row list"
  monitored_sites :: "site_row list"
  user_preferences :: "int \<rightharpoonup> preferences_row"
  user_feedback :: "feedback_row list"
  notification_history :: "history_row list"
  check_errors :: "error_row list"

section \<open>UserPreferenceManager\<close>

text \<open>The dictionary \<open>default_prefs\<close> of \<^verbatim>\<open>get_user_preferences\<close>.\<close>

definition default_prefs :: preferences where
  "default_prefs =
     \<lparr>preferred_categories = [''content'', ''design'', ''technical''],
      importance_weights = [(''content'', 1), (''design'', 7 / 10), (''technical'', 3 / 10)],
      notification_frequency = ''immediate'',
      learning = \<lparr>positive_feedback = 0, negative_feedback = 0, learned_patterns = []\<rparr>\<rparr>"

text \<open>\<^verbatim>\<open>INSERT OR REPLACE INTO user_preferences\<close>.\<close>

definition update_user_preferences :: "database \<Rightarrow> int \<Rightarrow> preferences \<Rightarrow> database" where
  "update_user_preferences db user_id prefs =
     db\<lparr>user_preferences := (user_preferences db)(user_id \<mapsto>
        \<lparr>row_preferred_categories = join_with CHR '','' (preferred_categories prefs),
         row_importance_weights = importance_weights prefs,
         row_notification_frequency = notification_frequency prefs,
         row_learning_data = learning prefs\<rparr>)\<rparr>"

text \<open>
  \<^verbatim>\<open>get_user_preferences\<close>. With a stored row it returns the row as a dictionary.
  Without one it builds \<open>default_prefs\<close> and calls
  \<^verbatim>\<open>update_user_preferences\<close> from inside its own
  \<^verbatim>\<open>with self.db.get_connection()\<close> block (line 278), which waits for the lock
  that this block holds: the call never returns and nothing is written.
\<close>

definition get_user_preferences :: "database \<Rightarrow> int \<Rightarrow> preferences option" where
  "get_user_preferences db user_id =
     (case user_preferences db user_id of
        Some row \<Rightarrow>
          Some \<lparr>preferred_categories = split_on CHR '','' (row_preferred_categories row),
                importance_weights = row_importance_weights row,
                notification_frequency = row_notification_frequency row,
                learning = row_learning_data row\<rparr>
      | None \<Rightarrow> None)"

text \<open>\<^verbatim>\<open>pattern_key.split('_')[0]\<close>.\<close>

definition pattern_category :: "string \<Rightarrow> string" where
  "pattern_category pattern_key = (case split_on CHR ''_'' pattern_key of [] \<Rightarrow> [] | c # _ \<Rightarrow> c)"

definition like_ratio :: "feedback_counts \<Rightarrow> real" where
  "like_ratio feedback = real_of_int (likes feedback) / real_of_int (likes feedback + dislikes feedback)"

text \<open>
  The body of the loop of \<^verbatim>\<open>adjust_importance_weights\<close> for one item of
  \<^verbatim>\<open>learning_data['learned_patterns'].items()\<close>; \<^verbatim>\<open>weights[category]\<close>
  raises \<^verbatim>\<open>KeyError\<close> when the category has no weight.
\<close>

fun adjust_step :: "(string \<times> real) list \<Rightarrow> string \<times> feedback_counts \<Rightarrow>
    py_error + (string \<times> real) list" where
  "adjust_step weights (pattern_key, feedback) =
     (let category = pattern_category pattern_key;
          total_feedback = likes feedback + dislikes feedback
      in if total_feedback \<ge> 3 then
           (if like_ratio feedback > 7 / 10 then
              (case map_of weights category of
                 None \<Rightarrow> Inl (KeyError category)
               | Some w \<Rightarrow> Inr (AList.update category (min 1 (w + 1 / 10)) weights))
            else if like_ratio feedback < 3 / 10 then
              (case map_of weights category of
                 None \<Rightarrow> Inl (KeyError category)
               | Some w \<Rightarrow> Inr (AList.update category (max (1 / 10) (w - 1 / 10)) weights))
            else Inr weights)
         else Inr weights)"

text \<open>The loop: the items in order, stopping at the first exception.\<close>

fun adjust_loop :: "(string \<times> real) list \<Rightarrow> (string \<times> feedback_counts) list \<Rightarrow>
    py_error + (string \<times> real) list" where
  "adjust_loop weights [] = Inr weights"
| "adjust_loop weights (item # rest) =
     (case adjust_step weights item of
        Inl e \<Rightarrow> Inl e
      | Inr weights' \<Rightarrow> adjust_loop weights' rest)"

definition adjust_importance_weights :: "database \<Rightarrow> int \<Rightarrow> learning_data \<Rightarrow>
    ((py_error + unit) \<times> database) option" where
  "adjust_importance_weights db user_id ld =
     (case get_user_preferences db user_id of
        None \<Rightarrow> None
      | Some prefs \<Rightarrow>
          (case adjust_loop (importance_weights prefs) (learned_patterns ld) of
             Inl e \<Rightarrow> Some (Inl e, db)
           | Inr weights \<Rightarrow>
               Some (Inr (),
                     update_user_preferences db user_id (prefs\<lparr>importance_weights := weights\<rparr>))))"

text \<open>The two counters that one feedback event moves.\<close>

definition count_feedback :: "string \<Rightarrow> string \<Rightarrow> learning_data \<Rightarrow> learning_data" where
  "count_feedback feedback_type key ld =
     (let ld1 = (if feedback_type = ''like''
                 then ld\<lparr>positive_feedback := positive_feedback ld + 1\<rparr>
                 else if feedback_type \<in> set [''dislike'', ''dismiss'']
                 then ld\<lparr>negative_feedback := negative_feedback ld + 1\<rparr>
                 else ld);
          ld2 = (if map_of (learned_patterns ld1) key = None
                 then ld1\<lparr>learned_patterns := learned_patterns ld1 @ [(key, \<lparr>likes = 0, dislikes = 0\<rparr>)]\<rparr>
                 else ld1)
      in if feedback_type = ''like''
         then ld2\<lparr>learned_patterns :=
                AList.map_entry key (\<lambda>p. p\<lparr>likes := likes p + 1\<rparr>) (learned_patterns ld2)\<rparr>
         else if feedback_type \<in> set [''dislike'', ''dismiss'']
         then ld2\<lparr>learned_patterns :=
                AList.map_entry key (\<lambda>p. p\<lparr>dislikes := dislikes p + 1\<rparr>) (learned_patterns ld2)\<rparr>
         else ld2)"

text \<open>
  \<^verbatim>\<open>change_data\<close> is a dictionary; \<^verbatim>\<open>change_data.get(k)\<close> is \<open>None\<close> for a missing key.
\<close>

type_synonym change_data = "string \<rightharpoonup> string"

definition update_learning_model :: "database \<Rightarrow> int \<Rightarrow> string \<Rightarrow> change_data \<Rightarrow>
    ((py_error + unit) \<times> database) option" where
  "update_learning_model db user_id feedback_type change_data =
     (case get_user_preferences db user_id of
        None \<Rightarrow> None
      | Some prefs \<Rightarrow>
          (let category = change_data ''category'';
               importance = change_data ''importance'';
               key = fmt category @ ''_'' @ fmt importance;
               ld = count_feedback feedback_type key (learning prefs)
           in case adjust_importance_weights db user_id ld of
                None \<Rightarrow> None
              | Some (Inl e, db2) \<Rightarrow> Some (Inl e, db2)
              | Some (Inr _, db2) \<Rightarrow>
                  Some (Inr (), update_user_preferences db2 user_id (prefs\<lparr>learning := ld\<rparr>))))"

definition record_feedback :: "database \<Rightarrow> int \<Rightarrow> string \<Rightarrow> string \<Rightarrow> change_data \<Rightarrow>
    ((py_error + unit) \<times> database) option" where
  "record_feedback db user_id notification_id feedback_type change_data =
     (let db1 = db\<lparr>user_feedback := user_feedback db @
                   [\<lparr>f_user_id = user_id, f_notification_id = notification_id,
                     f_feedback_type = feedback_type,
                     f_change_category = change_data ''category'',
                     f_importance_level = change_data ''importance''\<rparr>],
                 notification_history :=
                   map (\<lambda>h. if h_notification_id h = notification_id \<and> h_user_id h = user_id
                             then h\<lparr>feedback_received := True\<rparr> else h)
                       (notification_history db)\<rparr>
      in update_learning_model db1 user_id feedback_type change_data)"

text \<open>
  The dictionary a classifier returns. \<^verbatim>\<open>.get('category')\<close> and
  \<^verbatim>\<open>.get('importance', 'medium')\<close> read the first two fields, \<open>None\<close> standing for
  a missing key.
\<close>

record analysis =
  a_category :: "string option"
  a_importance :: "string option"
  personal_importance_score :: real
  key_aspects :: "string list"
  should_notify :: bool
  reasoning :: string
  personalized_summary :: string

text \<open>The literal \<^verbatim>\<open>{'high': 1.0, 'medium': 0.5, 'low': 0.2}\<close>.\<close>

definition base_importance_score :: "(string \<times> real) list" where
  "base_importance_score = [(''high'', 1), (''medium'', 1 / 2), (''low'', 2 / 10)]"

definition should_send_notification :: "database \<Rightarrow> int \<Rightarrow> analysis \<Rightarrow>
    (py_error + bool) option" where
  "should_send_notification db user_id change_analysis =
     (case get_user_preferences db user_id of
        None \<Rightarrow> None
      | Some prefs \<Rightarrow>
          (case a_category change_analysis of
             None \<Rightarrow> Some (Inr False)
           | Some category \<Rightarrow>
               if category \<notin> set (preferred_categories prefs) then Some (Inr False)
               else
                 (let importance = (case a_importance change_analysis of
                                      None \<Rightarrow> ''medium'' | Some i \<Rightarrow> i)
                  in case map_of base_importance_score importance of
                       None \<Rightarrow> Some (Inl (KeyError importance))
                     | Some base \<Rightarrow>
                         (let user_weight = (case map_of (importance_weights prefs) category of
                                               None \<Rightarrow> 1 / 2 | Some w \<Rightarrow> w);
                              final_score = base * user_weight;
                              threshold = 3 / 10
                          in Some (Inr (final_score \<ge> threshold))))))"

text \<open>
  Feedback events one after the other, each starting from the database the previous one
  left, whether it returned or raised (the caller \<^verbatim>\<open>handle_feedback\<close> logs the
  exception and goes on); \<open>None\<close> when one of the calls never returns.
\<close>

fun record_feedback_all :: "database \<Rightarrow> int \<Rightarrow> (string \<times> string \<times> change_data) list \<Rightarrow>
    database option" where
  "record_feedback_all db user_id [] = Some db"
| "record_feedback_all db user_id ((notification_id, feedback_type, change_data) # events) =
     (case record_feedback db user_id notification_id feedback_type change_data of
        None \<Rightarrow> None
      | Some (outcome, db') \<Rightarrow> record_feedback_all db' user_id events)"

text \<open>The tables as \<^verbatim>\<open>init_database\<close> creates them.\<close>

definition empty_database :: database where
  "empty_database =
     \<lparr>users = [], monitored_sites = [], user_preferences = Map.empty, user_feedback = [],
      notification_history = [], check_errors = []\<rparr>"

text \<open>The weights in the stored row of a user, if there is one.\<close>

definition stored_weights :: "database \<Rightarrow> int \<Rightarrow> (string \<times> real) list option" where
  "stored_weights db user_id = map_option row_importance_weights (user_preferences db user_id)"

text \<open>The learned patterns in the stored row of a user, if there is one.\<close>

definition stored_patterns :: "database \<Rightarrow> int \<Rightarrow> (string \<times> feedback_counts) list option" where
  "stored_patterns db user_id =
     map_option (\<lambda>row. learned_patterns (row_learning_data row)) (user_preferences db user_id)"

text \<open>The interval \<open>[0.1, 1.0]\<close> of the specification, for every entry of a weight map.\<close>

definition weights_in_range :: "(string \<times> real) list \<Rightarrow> bool" where
  "weights_in_range weights = list_all (\<lambda>(c, w). 1 / 10 \<le> w \<and> w \<le> 1) weights"

section \<open>AINotificationFilter\<close>

text \<open>\<^verbatim>\<open>str(n)\<close> for a natural number, as an f-string renders a length.\<close>

fun str_nat :: "nat \<Rightarrow> string" where
  "str_nat n =
     (if n < 10 then [char_of (48 + n)]
      else str_nat (n div 10) @ [char_of (48 + n mod 10)])"

declare str_nat.simps [simp del]

definition aspect_prefix :: string where
  "aspect_prefix =
     [CHR 0xD0, CHR 0x98, CHR 0xD0, CHR 0xB7, CHR 0xD0, CHR 0xBC, CHR 0xD0, CHR 0xB5, CHR 0xD0,
      CHR 0xBD, CHR 0xD0, CHR 0xB5, CHR 0xD0, CHR 0xBD, CHR 0xD0, CHR 0xB8, CHR 0xD1, CHR 0x8F,
      CHR 0x20, CHR 0xD1, CHR 0x80, CHR 0xD0, CHR 0xB0, CHR 0xD0, CHR 0xB7, CHR 0xD0, CHR 0xBC,
      CHR 0xD0, CHR 0xB5, CHR 0xD1, CHR 0x80, CHR 0xD0, CHR 0xBE, CHR 0xD0, CHR 0xBC, CHR 0x20]"

definition aspect_suffix :: string where
  "aspect_suffix =
     [CHR 0x20, CHR 0xD1, CHR 0x81, CHR 0xD0, CHR 0xB8, CHR 0xD0, CHR 0xBC, CHR 0xD0, CHR 0xB2,
      CHR 0xD0, CHR 0xBE, CHR 0xD0, CHR 0xBB, CHR 0xD0, CHR 0xBE, CHR 0xD0, CHR 0xB2]"

definition basic_reasoning :: string where
  "basic_reasoning =
     [CHR 0xD0, CHR 0x91, CHR 0xD0, CHR 0xB0, CHR 0xD0, CHR 0xB7, CHR 0xD0, CHR 0xBE, CHR 0xD0,
      CHR 0xB2, CHR 0xD1, CHR 0x8B, CHR 0xD0, CHR 0xB9, CHR 0x20, CHR 0xD0, CHR 0xB0, CHR 0xD0,
      CHR 0xBD, CHR 0xD0, CHR 0xB0, CHR 0xD0, CHR 0xBB, CHR 0xD0, CHR 0xB8, CHR 0xD0, CHR 0xB7,
      CHR 0x20, CHR 0xD0, CHR 0xBD, CHR 0xD0, CHR 0xB0, CHR 0x20, CHR 0xD0, CHR 0xBE, CHR 0xD1,
      CHR 0x81, CHR 0xD0, CHR 0xBD, CHR 0xD0, CHR 0xBE, CHR 0xD0, CHR 0xB2, CHR 0xD0, CHR 0xB5,
      CHR 0x20, CHR 0xD1, CHR 0x80, CHR 0xD0, CHR 0xB0, CHR 0xD0, CHR 0xB7, CHR 0xD0, CHR 0xBC,
      CHR 0xD0, CHR 0xB5, CHR 0xD1, CHR 0x80, CHR 0xD0, CHR 0xB0, CHR 0x20, CHR 0xD0, CHR 0xB8,
      CHR 0xD0, CHR 0xB7, CHR 0xD0, CHR 0xBC, CHR 0xD0, CHR 0xB5, CHR 0xD0, CHR 0xBD, CHR 0xD0,
      CHR 0xB5, CHR 0xD0, CHR 0xBD, CHR 0xD0, CHR 0xB8, CHR 0xD0, CHR 0xB9]"

definition basic_summary_prefix :: string where
  "basic_summary_prefix =
     [CHR 0xD0, CHR 0x9E, CHR 0xD0, CHR 0xB1, CHR 0xD0, CHR 0xBD, CHR 0xD0, CHR 0xB0, CHR 0xD1,
      CHR 0x80, CHR 0xD1, CHR 0x83, CHR 0xD0, CHR 0xB6, CHR 0xD0, CHR 0xB5, CHR 0xD0, CHR 0xBD,
      CHR 0xD1, CHR 0x8B, CHR 0x20, CHR 0xD0, CHR 0xB8, CHR 0xD0, CHR 0xB7, CHR 0xD0, CHR 0xBC,
      CHR 0xD0, CHR 0xB5, CHR 0xD0, CHR 0xBD, CHR 0xD0, CHR 0xB5, CHR 0xD0, CHR 0xBD, CHR 0xD0,
      CHR 0xB8, CHR 0xD1, CHR 0x8F, CHR 0x20, CHR 0xD0, CHR 0xBD, CHR 0xD0, CHR 0xB0, CHR 0x20,
      CHR 0xD1, CHR 0x81, CHR 0xD0, CHR 0xB0, CHR 0xD0, CHR 0xB9, CHR 0xD1, CHR 0x82, CHR 0xD0,
      CHR 0xB5, CHR 0x20]"

text \<open>
  \<^verbatim>\<open>_basic_analysis\<close>: \<^verbatim>\<open>change_data['diff']\<close> and
  \<^verbatim>\<open>change_data['site_name']\<close> are subscripts, which raise on a missing key.
\<close>

definition basic_analysis :: "change_data \<Rightarrow> py_error + analysis" where
  "basic_analysis change_data =
     (case change_data ''diff'' of
        None \<Rightarrow> Inl (KeyError ''diff'')
      | Some diff \<Rightarrow>
          (let change_size = length diff;
               (importance, category) =
                 (if change_size > 2000 then (''high'', ''content'')
                  else if change_size > 500 then (''medium'', ''design'')
                  else (''low'', ''technical''))
           in case change_data ''site_name'' of
                None \<Rightarrow> Inl (KeyError ''site_name'')
              | Some name \<Rightarrow>
                  Inr \<lparr>a_category = Some category,
                       a_importance = Some importance,
                       personal_importance_score = 1 / 2,
                       key_aspects = [aspect_prefix @ str_nat change_size @ aspect_suffix],
                       should_notify = True,
                       reasoning = basic_reasoning,
                       personalized_summary = basic_summary_prefix @ name\<rparr>))"

text \<open>
  \<^verbatim>\<open>analyze_change_importance\<close>. \<open>api_key\<close> is falsy when it is \<^verbatim>\<open>None\<close> or
  empty. \<open>remote\<close> is what the \<^verbatim>\<open>try\<close> block (prompt, HTTP request, JSON
  parsing) comes to: the parsed answer or an exception.
\<close>

definition analyze_change_importance :: "string option \<Rightarrow> py_error + analysis \<Rightarrow> change_data \<Rightarrow>
    py_error + analysis" where
  "analyze_change_importance api_key remote change_data =
     (if api_key = None \<or> api_key = Some [] then basic_analysis change_data
      else (case remote of
              Inr parsed \<Rightarrow> Inr parsed
            | Inl e \<Rightarrow> basic_analysis change_data))"

section \<open>NotificationGrouper\<close>

text \<open>
  A notification dictionary. A notification built by \<^verbatim>\<open>process_change\<close> has no
  keys \<^verbatim>\<open>is_summary\<close> and \<^verbatim>\<open>detailed_changes\<close>: it has \<open>False\<close> and
  \<open>[]\<close> there. A summary has no \<^verbatim>\<open>personalized_summary\<close>: it has \<open>[]\<close> there.
\<close>

record notification =
  notification_id :: string
  n_site_name :: string
  n_category :: string
  n_importance :: string
  title :: string
  message :: string
  n_personalized_summary :: string
  is_summary :: bool
  detailed_changes :: "string list"
  timestamp :: nat

text \<open>Python's \<^verbatim>\<open><\<close> on \<^verbatim>\<open>str\<close>: lexicographic on the code points.\<close>

fun str_less :: "string \<Rightarrow> string \<Rightarrow> bool" where
  "str_less [] [] = False"
| "str_less [] (y # ys) = True"
| "str_less (x # xs) [] = False"
| "str_less (x # xs) (y # ys) =
     (if (of_char x :: nat) < of_char y then True
      else if (of_char y :: nat) < of_char x then False
      else str_less xs ys)"

text \<open>\<^verbatim>\<open>max(...)\<close> over strings: the first of the greatest; \<^verbatim>\<open>ValueError\<close> on none.\<close>

definition py_max :: "string list \<Rightarrow> py_error + string" where
  "py_max xs =
     (case xs of
        [] \<Rightarrow> Inl ValueError
      | x # rest \<Rightarrow> Inr (foldl (\<lambda>m y. if str_less m y then y else m) x rest))"

definition summary_title_prefix :: string where
  "summary_title_prefix =
     [CHR 0xF0, CHR 0x9F, CHR 0x94, CHR 0x94, CHR 0x20]"

definition summary_title_middle :: string where
  "summary_title_middle =
     [CHR 0x20, CHR 0xD0, CHR 0xBE, CHR 0xD0, CHR 0xB1, CHR 0xD0, CHR 0xBD, CHR 0xD0, CHR 0xBE,
      CHR 0xD0, CHR 0xB2, CHR 0xD0, CHR 0xBB, CHR 0xD0, CHR 0xB5, CHR 0xD0, CHR 0xBD, CHR 0xD0,
      CHR 0xB8, CHR 0xD0, CHR 0xB9, CHR 0x20, CHR 0xD0, CHR 0xBD, CHR 0xD0, CHR 0xB0, CHR 0x20]"

definition summary_message_prefix :: string where
  "summary_message_prefix =
     [CHR 0xD0, CHR 0x97, CHR 0xD0, CHR 0xB0, CHR 0x20, CHR 0xD0, CHR 0xBF, CHR 0xD0, CHR 0xBE,
      CHR 0xD1, CHR 0x81, CHR 0xD0, CHR 0xBB, CHR 0xD0, CHR 0xB5, CHR 0xD0, CHR 0xB4, CHR 0xD0,
      CHR 0xBD, CHR 0xD0, CHR 0xB5, CHR 0xD0, CHR 0xB5, CHR 0x20, CHR 0xD0, CHR 0xB2, CHR 0xD1,
      CHR 0x80, CHR 0xD0, CHR 0xB5, CHR 0xD0, CHR 0xBC, CHR 0xD1, CHR 0x8F, CHR 0x20, CHR 0xD0,
      CHR 0xBF, CHR 0xD1, CHR 0x80, CHR 0xD0, CHR 0xBE, CHR 0xD0, CHR 0xB8, CHR 0xD0, CHR 0xB7,
      CHR 0xD0, CHR 0xBE, CHR 0xD1, CHR 0x88, CHR 0xD0, CHR 0xBB, CHR 0xD0, CHR 0xBE, CHR 0x20]"

definition summary_message_middle :: string where
  "summary_message_middle =
     [CHR 0x20, CHR 0xD0, CHR 0xB8, CHR 0xD0, CHR 0xB7, CHR 0xD0, CHR 0xBC, CHR 0xD0, CHR 0xB5,
      CHR 0xD0, CHR 0xBD, CHR 0xD0, CHR 0xB5, CHR 0xD0, CHR 0xBD, CHR 0xD0, CHR 0xB8, CHR 0xD0,
      CHR 0xB9, CHR 0x20, CHR 0xD0, CHR 0xB2, CHR 0x20, CHR 0xD0, CHR 0xBA, CHR 0xD0, CHR 0xB0,
      CHR 0xD1, CHR 0x82, CHR 0xD0, CHR 0xB5, CHR 0xD0, CHR 0xB3, CHR 0xD0, CHR 0xBE, CHR 0xD1,
      CHR 0x80, CHR 0xD0, CHR 0xB8, CHR 0xD0, CHR 0xB8, CHR 0x20]"

text \<open>
  \<^verbatim>\<open>_create_summary_notification\<close>. \<open>now_id\<close> is the text of
  \<^verbatim>\<open>datetime.now().timestamp()\<close> and \<open>now\<close> the reading of
  \<^verbatim>\<open>datetime.now()\<close>.
\<close>

definition create_summary_notification :: "string \<Rightarrow> nat \<Rightarrow> notification list \<Rightarrow>
    py_error + notification" where
  "create_summary_notification now_id now notifications =
     (case notifications of
        [] \<Rightarrow> Inl IndexError
      | main_notification # _ \<Rightarrow>
          (case py_max (map n_importance notifications) of
             Inl e \<Rightarrow> Inl e
           | Inr greatest \<Rightarrow>
               Inr \<lparr>notification_id = ''summary_'' @ now_id,
                    n_site_name = n_site_name main_notification,
                    n_category = n_category main_notification,
                    n_importance = greatest,
                    title = summary_title_prefix @ str_nat (length notifications) @
                      summary_title_middle @ n_site_name main_notification,
                    message = summary_message_prefix @ str_nat (length notifications) @
                      summary_message_middle @ n_category main_notification @ ''.'',
                    n_personalized_summary = [],
                    is_summary = True,
                    detailed_changes = map n_personalized_summary notifications,
                    timestamp = now\<rparr>))"

text \<open>
  The first loop of \<^verbatim>\<open>get_grouped_notifications\<close>:
  \<^verbatim>\<open>grouped[key].append(notification)\<close> on a \<^verbatim>\<open>defaultdict(list)\<close>.
\<close>

definition group_key :: "notification \<Rightarrow> string" where
  "group_key n = n_category n @ ''_'' @ n_site_name n"

definition group_append :: "(string \<times> notification list) list \<Rightarrow> notification \<Rightarrow>
    (string \<times> notification list) list" where
  "group_append grouped n =
     (case map_of grouped (group_key n) of
        None \<Rightarrow> grouped @ [(group_key n, [n])]
      | Some members \<Rightarrow> AList.update (group_key n) (members @ [n]) grouped)"

text \<open>The second loop, over \<^verbatim>\<open>grouped.items()\<close>, up to the first exception.\<close>

fun summarize_groups :: "string \<Rightarrow> nat \<Rightarrow> (string \<times> notification list) list \<Rightarrow>
    py_error + notification list" where
  "summarize_groups now_id now [] = Inr []"
| "summarize_groups now_id now ((key, members) # rest) =
     (case (case members of [single] \<Rightarrow> Inr single
                          | _ \<Rightarrow> create_summary_notification now_id now members) of
        Inl e \<Rightarrow> Inl e
      | Inr n \<Rightarrow>
          (case summarize_groups now_id now rest of
             Inl e \<Rightarrow> Inl e
           | Inr ns \<Rightarrow> Inr (n # ns)))"

text \<open>
  \<^verbatim>\<open>get_grouped_notifications\<close> on the queues \<^verbatim>\<open>pending_notifications\<close>; the
  parameter \<^verbatim>\<open>time_window_minutes\<close>, which the source never reads, is left out.
\<close>

definition get_grouped_notifications :: "(int \<rightharpoonup> notification list) \<Rightarrow> int \<Rightarrow> string \<Rightarrow> nat \<Rightarrow>
    (py_error + notification list) \<times> (int \<rightharpoonup> notification list)" where
  "get_grouped_notifications pending user_id now_id now =
     (let notifications = (case pending user_id of None \<Rightarrow> [] | Some ns \<Rightarrow> ns)
      in if notifications = [] then (Inr [], pending)
         else
           (let grouped = foldl group_append [] notifications
            in case summarize_groups now_id now grouped of
                 Inl e \<Rightarrow> (Inl e, pending)
               | Inr summary_notifications \<Rightarrow>
                   (Inr summary_notifications, pending(user_id \<mapsto> []))))"

section \<open>Site checks\<close>

text \<open>
  \<^verbatim>\<open>get_all_monitored_sites\<close> at clock reading \<open>now\<close>: the join with
  \<^verbatim>\<open>users\<close> and the \<^verbatim>\<open>WHERE\<close> clause, \<^verbatim>\<open>check_interval\<close> in minutes.
\<close>

definition get_all_monitored_sites :: "database \<Rightarrow> nat \<Rightarrow> site_row list" where
  "get_all_monitored_sites db now =
     [ms. ms \<leftarrow> monitored_sites db, u \<leftarrow> users db,
          site_user_id ms = u_user_id u \<and> subscribed u \<and> enabled ms \<and>
          (case last_checked ms of
             None \<Rightarrow> True
           | Some checked \<Rightarrow> checked + 60 * check_interval ms < now)]"

definition update_site_hash :: "database \<Rightarrow> int \<Rightarrow> string \<Rightarrow> string \<Rightarrow> nat \<Rightarrow> database" where
  "update_site_hash db sid current_hash content now =
     db\<lparr>monitored_sites :=
          map (\<lambda>row. if site_id row = sid
                      then row\<lparr>last_hash := Some current_hash,
                               last_content := Some (take 100000 content),
                               last_checked := Some now\<rparr>
                      else row)
              (monitored_sites db)\<rparr>"

definition record_error :: "database \<Rightarrow> int \<Rightarrow> string \<Rightarrow> string \<Rightarrow> database" where
  "record_error db sid etype emessage =
     db\<lparr>check_errors := check_errors db @
          [\<lparr>e_site_id = sid, error_type = etype, error_message = take 500 emessage\<rparr>]\<rparr>"

text \<open>
  What fetching and parsing a page comes to: the normalized text (after line 1076 of the
  source), an exception inside the text extraction, or an exception of the request.
\<close>

datatype fetch_result =
    Page string
  | ParsingError string
  | HTTPError nat
  | Timeout
  | ConnectionError
  | OtherError string

text \<open>The call of \<^verbatim>\<open>process_change\<close> that \<^verbatim>\<open>check_site\<close> schedules.\<close>

record change_request =
  cr_user_id :: int
  cr_site_info :: change_data
  cr_changes_data :: change_data

definition diff_unavailable :: string where
  "diff_unavailable =
     [CHR 0xD0, CHR 0x98, CHR 0xD0, CHR 0xB7, CHR 0xD0, CHR 0xBC, CHR 0xD0, CHR 0xB5, CHR 0xD0,
      CHR 0xBD, CHR 0xD0, CHR 0xB5, CHR 0xD0, CHR 0xBD, CHR 0xD0, CHR 0xB8, CHR 0xD1, CHR 0x8F,
      CHR 0x20, CHR 0xD0, CHR 0xBE, CHR 0xD0, CHR 0xB1, CHR 0xD0, CHR 0xBD, CHR 0xD0, CHR 0xB0,
      CHR 0xD1, CHR 0x80, CHR 0xD1, CHR 0x83, CHR 0xD0, CHR 0xB6, CHR 0xD0, CHR 0xB5, CHR 0xD0,
      CHR 0xBD, CHR 0xD1, CHR 0x8B, CHR 0x2C, CHR 0x20, CHR 0xD0, CHR 0xBD, CHR 0xD0, CHR 0xBE,
      CHR 0x20, CHR 0xD0, CHR 0xBD, CHR 0xD0, CHR 0xB5, CHR 0x20, CHR 0xD0, CHR 0xBC, CHR 0xD0,
      CHR 0xBE, CHR 0xD0, CHR 0xB3, CHR 0xD1, CHR 0x83, CHR 0xD1, CHR 0x82, CHR 0x20, CHR 0xD0,
      CHR 0xB1, CHR 0xD1, CHR 0x8B, CHR 0xD1, CHR 0x82, CHR 0xD1, CHR 0x8C, CHR 0x20, CHR 0xD0,
      CHR 0xBE, CHR 0xD1, CHR 0x82, CHR 0xD0, CHR 0xBE, CHR 0xD0, CHR 0xB1, CHR 0xD1, CHR 0x80,
      CHR 0xD0, CHR 0xB0, CHR 0xD0, CHR 0xB6, CHR 0xD0, CHR 0xB5, CHR 0xD0, CHR 0xBD, CHR 0xD1,
      CHR 0x8B]"

text \<open>
  \<^verbatim>\<open>check_site\<close>. \<open>digest\<close> is \<^verbatim>\<open>hashlib.md5(...).hexdigest()\<close> of the
  encoded text, \<open>differ\<close> the joined \<^verbatim>\<open>difflib.unified_diff\<close> (\<open>None\<close> when it
  raises), \<open>now\<close> the reading of \<^verbatim>\<open>CURRENT_TIMESTAMP\<close>. The result is the
  database and the scheduled call, if any.
\<close>

definition check_site :: "(string \<Rightarrow> string) \<Rightarrow> (string \<Rightarrow> string \<Rightarrow> string option) \<Rightarrow> nat \<Rightarrow>
    database \<Rightarrow> site_row \<Rightarrow> fetch_result \<Rightarrow> database \<times> change_request option" where
  "check_site digest differ now db site fetched =
     (case fetched of
        HTTPError code \<Rightarrow>
          (record_error db (site_id site) ''http_error'' (''HTTP '' @ str_nat code), None)
      | Timeout \<Rightarrow> (record_error db (site_id site) ''timeout'' ''Timeout'', None)
      | ConnectionError \<Rightarrow>
          (record_error db (site_id site) ''connection_error'' ''Connection error'', None)
      | OtherError msg \<Rightarrow> (record_error db (site_id site) ''general_error'' msg, None)
      | ParsingError msg \<Rightarrow> (record_error db (site_id site) ''parsing_error'' msg, None)
      | Page text \<Rightarrow>
          if text = [] \<or> length text < 50 then (db, None)
          else
            (let current_hash = digest text;
                 scheduled =
                   (if last_hash site \<noteq> None \<and> last_hash site \<noteq> Some [] \<and>
                       Some current_hash \<noteq> last_hash site
                    then
                      (let old_content_str =
                             (case last_content site of None \<Rightarrow> [] | Some c \<Rightarrow> c);
                           changes_diff =
                             (case differ old_content_str text of
                                Some d \<Rightarrow> take 5000 d
                              | None \<Rightarrow> diff_unavailable)
                       in Some \<lparr>cr_user_id = site_user_id site,
                                cr_site_info =
                                  [''site_name'' \<mapsto> site_name site, ''url'' \<mapsto> url site],
                                cr_changes_data =
                                  [''diff'' \<mapsto> changes_diff,
                                   ''old_content'' \<mapsto> old_content_str,
                                   ''new_content'' \<mapsto> text,
                                   ''change_type'' \<mapsto> ''content_update'']\<rparr>)
                    else None)
             in (update_site_hash db (site_id site) current_hash text now, scheduled)))"

section \<open>Lemmas on strings and association lists\<close>

lemma split_on_nonempty: "split_on sep s \<noteq> []"
  by (induction s) (auto split: list.splits)

lemma join_split: "join_with sep (split_on sep s) = s"
proof (induction s)
  case Nil
  show ?case by simp
next
  case (Cons c cs)
  obtain w ws where s: "split_on sep cs = w # ws"
    using split_on_nonempty[of sep cs] by (cases "split_on sep cs") auto
  with Cons show ?case by (cases ws) auto
qed

lemma set_update_cases:
  "(a, b) \<in> set (AList.update k v al) \<Longrightarrow> (a, b) = (k, v) \<or> (a, b) \<in> set al"
  by (induction al) (auto split: if_splits)

lemma keys_update_present:
  "map_of ws k = Some w \<Longrightarrow> fst ` set (AList.update k v ws) = fst ` set ws"
proof -
  assume "map_of ws k = Some w"
  then have "k \<in> fst ` set ws" by (metis domI dom_map_of_conv_image_fst)
  then show ?thesis unfolding dom_update by blast
qed

section \<open>The weight-adjustment loop\<close>

lemma weights_in_range_update:
  "weights_in_range ws \<Longrightarrow> 1 / 10 \<le> v \<Longrightarrow> v \<le> 1 \<Longrightarrow> weights_in_range (AList.update k v ws)"
  unfolding weights_in_range_def list_all_iff using set_update_cases by fastforce

lemma weights_in_range_lookup:
  "weights_in_range ws \<Longrightarrow> map_of ws k = Some w \<Longrightarrow> 1 / 10 \<le> w \<and> w \<le> 1"
  unfolding weights_in_range_def list_all_iff by (auto dest: map_of_SomeD)

lemma adjust_step_range:
  assumes "weights_in_range ws" and "adjust_step ws item = Inr ws'"
  shows "weights_in_range ws'"
proof -
  obtain k fb where item: "item = (k, fb)" by (cases item)
  have up: "weights_in_range (AList.update (pattern_category k) (min 1 (w + 1 / 10)) ws)"
    if "map_of ws (pattern_category k) = Some w" for w
    using weights_in_range_lookup[OF assms(1) that]
    by (intro weights_in_range_update[OF assms(1)]) auto
  have down: "weights_in_range (AList.update (pattern_category k) (max (1 / 10) (w - 1 / 10)) ws)"
    if "map_of ws (pattern_category k) = Some w" for w
    using weights_in_range_lookup[OF assms(1) that]
    by (intro weights_in_range_update[OF assms(1)]) auto
  show ?thesis
    using assms up down unfolding item
    by (auto simp: Let_def split: if_splits option.splits)
qed

lemma adjust_loop_range:
  "weights_in_range ws \<Longrightarrow> adjust_loop ws ps = Inr ws' \<Longrightarrow> weights_in_range ws'"
proof (induction ps arbitrary: ws)
  case Nil
  then show ?case by simp
next
  case (Cons item rest)
  then show ?case by (auto split: sum.splits dest: adjust_step_range)
qed

lemma adjust_step_dead_zone:
  "3 \<le> likes fb + dislikes fb \<longrightarrow> 3 / 10 \<le> like_ratio fb \<and> like_ratio fb \<le> 7 / 10
   \<Longrightarrow> adjust_step ws (k, fb) = Inr ws"
  by (auto simp: Let_def)

lemma adjust_loop_dead_zone:
  "\<forall>(k, fb) \<in> set ps. 3 \<le> likes fb + dislikes fb \<longrightarrow>
      3 / 10 \<le> like_ratio fb \<and> like_ratio fb \<le> 7 / 10
   \<Longrightarrow> adjust_loop ws ps = Inr ws"
proof (induction ps)
  case Nil
  then show ?case by simp
next
  case (Cons item rest)
  obtain k fb where item: "item = (k, fb)" by (cases item)
  from Cons.prems have "adjust_step ws item = Inr ws"
    unfolding item by (intro adjust_step_dead_zone) auto
  moreover from Cons have "adjust_loop ws rest = Inr ws" by auto
  ultimately show ?case by simp
qed

lemma adjust_step_keys:
  assumes "adjust_step ws item = Inr ws'"
  shows "fst ` set ws' = fst ` set ws"
proof -
  obtain k fb where item: "item = (k, fb)" by (cases item)
  show ?thesis
  proof (cases "map_of ws (pattern_category k)")
    case None
    with assms show ?thesis
      unfolding item by (simp add: Let_def split: if_splits)
  next
    case (Some w)
    with assms have "ws' = ws \<or> ws' = AList.update (pattern_category k) (min 1 (w + 1 / 10)) ws
        \<or> ws' = AList.update (pattern_category k) (max (1 / 10) (w - 1 / 10)) ws"
      unfolding item by (simp add: Let_def split: if_splits)
    then show ?thesis
    proof (elim disjE)
      assume "ws' = ws"
      then show ?thesis by simp
    next
      assume "ws' = AList.update (pattern_category k) (min 1 (w + 1 / 10)) ws"
      then show ?thesis by (simp only: keys_update_present[OF Some])
    next
      assume "ws' = AList.update (pattern_category k) (max (1 / 10) (w - 1 / 10)) ws"
      then show ?thesis by (simp only: keys_update_present[OF Some])
    qed
  qed
qed

lemma adjust_step_total:
  assumes "pattern_category (fst item) \<in> fst ` set ws"
  shows "\<exists>ws'. adjust_step ws item = Inr ws'"
proof -
  obtain k fb where item: "item = (k, fb)" by (cases item)
  from assms obtain w where "map_of ws (pattern_category k) = Some w"
    unfolding item by (metis domD dom_map_of_conv_image_fst fst_conv)
  then show ?thesis unfolding item by (simp add: Let_def)
qed

lemma adjust_loop_total:
  "\<forall>item \<in> set ps. pattern_category (fst item) \<in> fst ` set ws
   \<Longrightarrow> \<exists>ws'. adjust_loop ws ps = Inr ws'"
proof (induction ps arbitrary: ws)
  case Nil
  then show ?case by simp
next
  case (Cons item rest)
  then obtain ws1 where s: "adjust_step ws item = Inr ws1"
    using adjust_step_total[of item ws] by auto
  have "\<forall>item \<in> set rest. pattern_category (fst item) \<in> fst ` set ws1"
    using Cons.prems adjust_step_keys[OF s] by auto
  from Cons.IH[OF this] s show ?case by simp
qed


section \<open>Reading and writing the preferences row\<close>

lemma get_user_preferences_no_row:
  "user_preferences db uid = None \<Longrightarrow> get_user_preferences db uid = None"
  by (simp add: get_user_preferences_def)

lemma get_user_preferences_row:
  "user_preferences db uid = Some row \<Longrightarrow>
   get_user_preferences db uid =
     Some \<lparr>preferred_categories = split_on CHR '','' (row_preferred_categories row),
           importance_weights = row_importance_weights row,
           notification_frequency = row_notification_frequency row,
           learning = row_learning_data row\<rparr>"
  by (simp add: get_user_preferences_def)


lemma stored_weights_after_update:
  "stored_weights (update_user_preferences db uid prefs) uid = Some (importance_weights prefs)"
  by (simp add: stored_weights_def update_user_preferences_def)

lemma update_row_weights:
  assumes "user_preferences db uid = Some row"
  shows "update_user_preferences db uid
      \<lparr>preferred_categories = split_on CHR '','' (row_preferred_categories row),
       importance_weights = ws,
       notification_frequency = row_notification_frequency row,
       learning = row_learning_data row\<rparr> =
    db\<lparr>user_preferences := (user_preferences db)(uid \<mapsto> row\<lparr>row_importance_weights := ws\<rparr>)\<rparr>"
  by (cases row) (simp add: update_user_preferences_def join_split)

lemma update_same_row:
  assumes "user_preferences db uid = Some row"
  shows "update_user_preferences db uid
      \<lparr>preferred_categories = split_on CHR '','' (row_preferred_categories row),
       importance_weights = row_importance_weights row,
       notification_frequency = row_notification_frequency row,
       learning = row_learning_data row\<rparr> = db"
proof -
  have "(user_preferences db)(uid \<mapsto> row) = user_preferences db"
    using assms by (simp add: fun_upd_idem)
  then show ?thesis
    unfolding update_row_weights [OF assms] by simp
qed

lemma adjust_importance_weights_cases:
  assumes "user_preferences db uid = Some row"
  shows "(\<exists>e. adjust_loop (row_importance_weights row) (learned_patterns ld) = Inl e \<and>
        adjust_importance_weights db uid ld = Some (Inl e, db)) \<or>
   (\<exists>ws. adjust_loop (row_importance_weights row) (learned_patterns ld) = Inr ws \<and>
        adjust_importance_weights db uid ld =
          Some (Inr (), db\<lparr>user_preferences :=
             (user_preferences db)(uid \<mapsto> row\<lparr>row_importance_weights := ws\<rparr>)\<rparr>))"
proof (cases "adjust_loop (row_importance_weights row) (learned_patterns ld)")
  case (Inl e)
  then show ?thesis
    by (simp add: adjust_importance_weights_def get_user_preferences_row [OF assms])
next
  case (Inr ws)
  then show ?thesis
    by (simp add: adjust_importance_weights_def get_user_preferences_row [OF assms]
        update_row_weights [OF assms])
qed

lemma adjust_importance_weights_range:
  assumes "stored_weights db uid = Some ws" and "weights_in_range ws"
  shows "\<exists>outcome db' ws'. adjust_importance_weights db uid ld = Some (outcome, db') \<and>
    stored_weights db' uid = Some ws' \<and> weights_in_range ws'"
proof -
  from assms(1) obtain row where row: "user_preferences db uid = Some row"
    and ws: "row_importance_weights row = ws"
    by (auto simp: stored_weights_def)
  from adjust_importance_weights_cases [OF row, of ld] show ?thesis
  proof (elim disjE exE conjE)
    fix e
    assume "adjust_importance_weights db uid ld = Some (Inl e, db)"
    with assms show ?thesis by blast
  next
    fix ws'
    assume loop: "adjust_loop (row_importance_weights row) (learned_patterns ld) = Inr ws'"
      and run: "adjust_importance_weights db uid ld =
        Some (Inr (), db\<lparr>user_preferences :=
           (user_preferences db)(uid \<mapsto> row\<lparr>row_importance_weights := ws'\<rparr>)\<rparr>)"
    have "weights_in_range ws'"
      using adjust_loop_range [OF _ loop] assms(2) ws by simp
    moreover have "stored_weights (db\<lparr>user_preferences :=
           (user_preferences db)(uid \<mapsto> row\<lparr>row_importance_weights := ws'\<rparr>)\<rparr>) uid = Some ws'"
      by (simp add: stored_weights_def)
    ultimately show ?thesis using run by blast
  qed
qed

lemma update_learning_model_weights:
  assumes "stored_weights db uid = Some ws"
  shows "\<exists>outcome db'. update_learning_model db uid ft cd = Some (outcome, db') \<and>
    stored_weights db' uid = Some ws"
proof -
  from assms obtain row where row: "user_preferences db uid = Some row"
    and ws: "row_importance_weights row = ws"
    by (auto simp: stored_weights_def)
  let ?ld = "count_feedback ft (fmt (cd ''category'') @ ''_'' @ fmt (cd ''importance''))
      (row_learning_data row)"
  from adjust_importance_weights_cases [OF row, of ?ld] show ?thesis
  proof (elim disjE exE conjE)
    fix e
    assume "adjust_importance_weights db uid ?ld = Some (Inl e, db)"
    then have "update_learning_model db uid ft cd = Some (Inl e, db)"
      by (simp add: update_learning_model_def get_user_preferences_row [OF row] Let_def)
    with assms show ?thesis by blast
  next
    fix ws'
    assume "adjust_importance_weights db uid ?ld =
        Some (Inr (), db\<lparr>user_preferences :=
           (user_preferences db)(uid \<mapsto> row\<lparr>row_importance_weights := ws'\<rparr>)\<rparr>)"
    then have "update_learning_model db uid ft cd =
        Some (Inr (), update_user_preferences
          (db\<lparr>user_preferences :=
             (user_preferences db)(uid \<mapsto> row\<lparr>row_importance_weights := ws'\<rparr>)\<rparr>) uid
          \<lparr>preferred_categories = split_on CHR '','' (row_preferred_categories row),
           importance_weights = row_importance_weights row,
           notification_frequency = row_notification_frequency row,
           learning = ?ld\<rparr>)"
      by (simp add: update_learning_model_def get_user_preferences_row [OF row] Let_def)
    moreover have "stored_weights (update_user_preferences db2 uid
          \<lparr>preferred_categories = split_on CHR '','' (row_preferred_categories row),
           importance_weights = row_importance_weights row,
           notification_frequency = row_notification_frequency row,
           learning = ?ld\<rparr>) uid = Some ws" for db2
      by (simp add: stored_weights_after_update ws)
    ultimately show ?thesis by blast
  qed
qed

lemma record_feedback_weights:
  assumes "stored_weights db uid = Some ws"
  shows "\<exists>outcome db'. record_feedback db uid nid ft cd = Some (outcome, db') \<and>
    stored_weights db' uid = Some ws"
proof -
  have "stored_weights (db\<lparr>user_feedback := a, notification_history := b\<rparr>) uid = Some ws" for a b
    using assms by (simp add: stored_weights_def)
  from update_learning_model_weights [OF this] show ?thesis
    by (simp add: record_feedback_def Let_def)
qed

lemma record_feedback_all_weights:
  "stored_weights db uid = Some ws \<Longrightarrow>
   \<exists>db'. record_feedback_all db uid events = Some db' \<and> stored_weights db' uid = Some ws"
proof (induction events arbitrary: db)
  case Nil
  then show ?case by simp
next
  case (Cons ev events)
  obtain nid ft cd where ev: "ev = (nid, ft, cd)" by (cases ev)
  from record_feedback_weights [OF Cons.prems, of nid ft cd]
  obtain outcome db1 where step: "record_feedback db uid nid ft cd = Some (outcome, db1)"
    and w: "stored_weights db1 uid = Some ws"
    by blast
  from Cons.IH [OF w] step show ?case
    unfolding ev by simp
qed





section \<open>Claims on the preference model\<close>

lemmas prefs_defs =
  record_feedback_def update_learning_model_def adjust_importance_weights_def
  get_user_preferences_def update_user_preferences_def count_feedback_def pattern_category_def
  like_ratio_def default_prefs_def stored_weights_def stored_patterns_def empty_database_def
  weights_in_range_def Let_def



text \<open>
  C6. If the stored weights of a user all lie in \<open>[0.1, 1.0]\<close>, then any finite sequence
  of feedback events runs to its end and the stored weights still lie there; and one run
  of the weight-adjustment pass, whatever learning data it is given, returns or raises
  and leaves stored weights in that interval. The claim's second condition, that the
  pattern categories are keys of the weight map, is not needed: a pass that raises writes
  nothing.
\<close>

theorem weights_stay_in_range:
  assumes "stored_weights db user_id = Some ws"
    and "weights_in_range ws"
  shows "(\<exists>db' ws'. record_feedback_all db user_id events = Some db' \<and>
      stored_weights db' user_id = Some ws' \<and> weights_in_range ws') \<and>
    (\<exists>outcome db' ws'. adjust_importance_weights db user_id ld = Some (outcome, db') \<and>
      stored_weights db' user_id = Some ws' \<and> weights_in_range ws')"
  using record_feedback_all_weights [OF assms(1), of events]
    adjust_importance_weights_range [OF assms, of ld] assms(2)
  by blast

theorem weights_stay_in_range_witness:
  "stored_weights (update_user_preferences empty_database 1 default_prefs) 1 =
     Some [(''content'', 1), (''design'', 7 / 10), (''technical'', 3 / 10)] \<and>
   weights_in_range [(''content'', 1), (''design'', 7 / 10), (''technical'', 3 / 10)] \<and>
   (\<exists>db' ws'. record_feedback_all (update_user_preferences empty_database 1 default_prefs) 1
      [(''n1'', ''dislike'', [''category'' \<mapsto> ''technical'', ''importance'' \<mapsto> ''low'']),
       (''n2'', ''dislike'', [''category'' \<mapsto> ''technical'', ''importance'' \<mapsto> ''low'']),
       (''n3'', ''dismiss'', [''category'' \<mapsto> ''technical'', ''importance'' \<mapsto> ''low''])] =
        Some db' \<and>
      stored_weights db' 1 = Some ws' \<and> weights_in_range ws') \<and>
   (\<exists>outcome db' ws'. adjust_importance_weights
        (update_user_preferences empty_database 1 default_prefs) 1
        \<lparr>positive_feedback = 0, negative_feedback = 3,
         learned_patterns = [(''technical_low'', \<lparr>likes = 0, dislikes = 3\<rparr>)]\<rparr> =
        Some (outcome, db') \<and>
      stored_weights db' 1 = Some ws' \<and> weights_in_range ws')"
proof -
  have h1: "stored_weights (update_user_preferences empty_database 1 default_prefs) 1 =
     Some [(''content'', 1), (''design'', 7 / 10), (''technical'', 3 / 10)]"
    by (simp add: prefs_defs)
  have h2: "weights_in_range [(''content'', 1), (''design'', 7 / 10), (''technical'', 3 / 10)]"
    by (simp add: weights_in_range_def)
  show ?thesis
    using h1 h2 weights_stay_in_range [OF h1 h2] by blast
qed

text \<open>
  C8. For a user with a stored row: when every learned pattern with at least 3 feedback
  events has a like-ratio in \<open>[0.3, 0.7]\<close>, the weight-adjustment pass returns normally and
  leaves the database, and so every weight, as it was.
\<close>

theorem dead_zone_leaves_weights:
  assumes "user_preferences db user_id = Some row"
    and "\<forall>(k, fb) \<in> set (learned_patterns ld).
      3 \<le> likes fb + dislikes fb \<longrightarrow> 3 / 10 \<le> like_ratio fb \<and> like_ratio fb \<le> 7 / 10"
  shows "adjust_importance_weights db user_id ld = Some (Inr (), db)"
proof -
  have loop: "adjust_loop (row_importance_weights row) (learned_patterns ld) =
      Inr (row_importance_weights row)"
    by (rule adjust_loop_dead_zone [OF assms(2)])
  show ?thesis
    by (simp add: adjust_importance_weights_def get_user_preferences_row [OF assms(1)] loop
        update_same_row [OF assms(1)])
qed

theorem dead_zone_leaves_weights_witness:
  "3 / 10 \<le> like_ratio \<lparr>likes = 2, dislikes = 1\<rparr> \<and>
   like_ratio \<lparr>likes = 2, dislikes = 1\<rparr> \<le> 7 / 10 \<and>
   adjust_importance_weights (update_user_preferences empty_database 1 default_prefs) 1
      \<lparr>positive_feedback = 3, negative_feedback = 1,
       learned_patterns = [(''content_high'', \<lparr>likes = 2, dislikes = 1\<rparr>),
                           (''design_low'', \<lparr>likes = 1, dislikes = 0\<rparr>)]\<rparr> =
     Some (Inr (), update_user_preferences empty_database 1 default_prefs)"
proof -
  let ?row = "\<lparr>row_preferred_categories = ''content,design,technical'',
       row_importance_weights = [(''content'', 1), (''design'', 7 / 10), (''technical'', 3 / 10)],
       row_notification_frequency = ''immediate'',
       row_learning_data =
         \<lparr>positive_feedback = 0, negative_feedback = 0, learned_patterns = []\<rparr>\<rparr>"
  have r: "3 / 10 \<le> like_ratio \<lparr>likes = 2, dislikes = 1\<rparr> \<and>
      like_ratio \<lparr>likes = 2, dislikes = 1\<rparr> \<le> 7 / 10"
    by (simp add: like_ratio_def)
  then have h: "\<forall>(k, fb) \<in> set (learned_patterns
      \<lparr>positive_feedback = 3, negative_feedback = 1,
       learned_patterns = [(''content_high'', \<lparr>likes = 2, dislikes = 1\<rparr>),
                           (''design_low'', \<lparr>likes = 1, dislikes = 0\<rparr>)]\<rparr>).
      3 \<le> likes fb + dislikes fb \<longrightarrow> 3 / 10 \<le> like_ratio fb \<and> like_ratio fb \<le> 7 / 10"
    by simp
  have row: "user_preferences (update_user_preferences empty_database 1 default_prefs) 1 =
      Some ?row"
    by (simp add: prefs_defs)
  from r dead_zone_leaves_weights [OF row h] show ?thesis by blast
qed



text \<open>
  C7. \<^verbatim>\<open>should_send_notification\<close> is monotonic in the weight of the category: if it
  accepts an analysis while the stored weight of the category is \<open>w\<close>, it accepts the same
  analysis after that weight alone is replaced by a greater \<open>w'\<close>. (An accepting call has
  returned, so the user has a stored row.)
\<close>

theorem should_send_notification_monotone:
  assumes "user_preferences db user_id = Some row"
    and "a_category a = Some c"
    and "map_of (row_importance_weights row) c = Some w"
    and "w < w'"
    and "should_send_notification db user_id a = Some (Inr True)"
  shows "should_send_notification
      (db\<lparr>user_preferences := (user_preferences db)(user_id \<mapsto>
            row\<lparr>row_importance_weights := AList.update c w' (row_importance_weights row)\<rparr>)\<rparr>)
      user_id a = Some (Inr True)"
proof -
  have pos: "0 < base \<Longrightarrow> 3 / 10 \<le> base * w \<Longrightarrow> 3 / 10 \<le> base * w'" for base :: real
  proof -
    assume "0 < base" and le: "3 / 10 \<le> base * w"
    with assms(4) have "base * w \<le> base * w'" by simp
    with le show ?thesis by linarith
  qed
  have bases: "map_of base_importance_score i = Some base \<Longrightarrow> 0 < base" for i base
    by (auto simp: base_importance_score_def split: if_splits)
  from assms(5) show ?thesis
    using assms(1,2,3) pos bases
    by (auto simp: should_send_notification_def get_user_preferences_def update_conv' Let_def
        split: option.splits if_splits)
qed

theorem should_send_notification_monotone_witness:
  "(3 / 10 :: real) < 1 / 2 \<and>
   should_send_notification (update_user_preferences empty_database 1 default_prefs) 1
      \<lparr>a_category = Some ''technical'', a_importance = Some ''high'',
       personal_importance_score = 1 / 2, key_aspects = [], should_notify = True,
       reasoning = [], personalized_summary = []\<rparr> = Some (Inr True) \<and>
   should_send_notification
      ((update_user_preferences empty_database 1 default_prefs)\<lparr>user_preferences :=
         (user_preferences (update_user_preferences empty_database 1 default_prefs))(1 \<mapsto>
            \<lparr>row_preferred_categories = ''content,design,technical'',
             row_importance_weights =
               AList.update ''technical'' (1 / 2)
                 [(''content'', 1), (''design'', 7 / 10), (''technical'', 3 / 10)],
             row_notification_frequency = ''immediate'',
             row_learning_data =
               \<lparr>positive_feedback = 0, negative_feedback = 0, learned_patterns = []\<rparr>\<rparr>)\<rparr>)
      1
      \<lparr>a_category = Some ''technical'', a_importance = Some ''high'',
       personal_importance_score = 1 / 2, key_aspects = [], should_notify = True,
       reasoning = [], personalized_summary = []\<rparr> = Some (Inr True)"
proof -
  let ?db = "update_user_preferences empty_database 1 default_prefs"
  let ?a = "\<lparr>a_category = Some ''technical'', a_importance = Some ''high'',
       personal_importance_score = 1 / 2, key_aspects = [], should_notify = True,
       reasoning = [], personalized_summary = []\<rparr>"
  let ?row = "\<lparr>row_preferred_categories = ''content,design,technical'',
       row_importance_weights = [(''content'', 1), (''design'', 7 / 10), (''technical'', 3 / 10)],
       row_notification_frequency = ''immediate'',
       row_learning_data =
         \<lparr>positive_feedback = 0, negative_feedback = 0, learned_patterns = []\<rparr>\<rparr>"
  have h1: "user_preferences ?db 1 = Some ?row"
    by (simp add: prefs_defs)
  have h2: "a_category ?a = Some ''technical''" by simp
  have h3: "map_of (row_importance_weights ?row) ''technical'' = Some (3 / 10)" by simp
  have h4: "(3 / 10 :: real) < 1 / 2" by simp
  have h5: "should_send_notification ?db 1 ?a = Some (Inr True)"
    by (simp add: should_send_notification_def base_importance_score_def prefs_defs)
  have upd: "?row\<lparr>row_importance_weights :=
        AList.update ''technical'' (1 / 2) (row_importance_weights ?row)\<rparr> =
      \<lparr>row_preferred_categories = ''content,design,technical'',
       row_importance_weights =
         AList.update ''technical'' (1 / 2)
           [(''content'', 1), (''design'', 7 / 10), (''technical'', 3 / 10)],
       row_notification_frequency = ''immediate'',
       row_learning_data =
         \<lparr>positive_feedback = 0, negative_feedback = 0, learned_patterns = []\<rparr>\<rparr>"
    by (simp only: preferences_row.simps)
  from should_send_notification_monotone [OF h1 h2 h3 h4 h5, unfolded upd] h4 h5
  show ?thesis by (intro conjI)
qed

section \<open>The lost weight update\<close>

text \<open>
  C1. A user whose stored content weight is 0.7 sends five likes on (content, high). Each
  call returns normally and the pattern counts five likes, but the stored content weight
  is still 0.7 and not 0.8: \<^verbatim>\<open>update_learning_model\<close> writes back the preferences it
  read before the adjustment pass, over the weights that the pass has just stored. The
  pass alone, on the same learning data, does store 0.8.
\<close>

theorem five_likes_leave_stored_weight:
  "Option.bind
     (record_feedback_all
        (update_user_preferences empty_database 1
           (default_prefs\<lparr>importance_weights :=
              [(''content'', 7 / 10), (''design'', 7 / 10), (''technical'', 3 / 10)]\<rparr>))
        1
        [(''n1'', ''like'', [''category'' \<mapsto> ''content'', ''importance'' \<mapsto> ''high'']),
         (''n2'', ''like'', [''category'' \<mapsto> ''content'', ''importance'' \<mapsto> ''high'']),
         (''n3'', ''like'', [''category'' \<mapsto> ''content'', ''importance'' \<mapsto> ''high'']),
         (''n4'', ''like'', [''category'' \<mapsto> ''content'', ''importance'' \<mapsto> ''high'']),
         (''n5'', ''like'', [''category'' \<mapsto> ''content'', ''importance'' \<mapsto> ''high''])])
     (\<lambda>db. stored_weights db 1) =
     Some [(''content'', 7 / 10), (''design'', 7 / 10), (''technical'', 3 / 10)] \<and>
   Option.bind
     (record_feedback_all
        (update_user_preferences empty_database 1
           (default_prefs\<lparr>importance_weights :=
              [(''content'', 7 / 10), (''design'', 7 / 10), (''technical'', 3 / 10)]\<rparr>))
        1
        [(''n1'', ''like'', [''category'' \<mapsto> ''content'', ''importance'' \<mapsto> ''high'']),
         (''n2'', ''like'', [''category'' \<mapsto> ''content'', ''importance'' \<mapsto> ''high'']),
         (''n3'', ''like'', [''category'' \<mapsto> ''content'', ''importance'' \<mapsto> ''high'']),
         (''n4'', ''like'', [''category'' \<mapsto> ''content'', ''importance'' \<mapsto> ''high'']),
         (''n5'', ''like'', [''category'' \<mapsto> ''content'', ''importance'' \<mapsto> ''high''])])
     (\<lambda>db. stored_patterns db 1) =
     Some [(''content_high'', \<lparr>likes = 5, dislikes = 0\<rparr>)] \<and>
   Option.bind
     (adjust_importance_weights
        (update_user_preferences empty_database 1
           (default_prefs\<lparr>importance_weights :=
              [(''content'', 7 / 10), (''design'', 7 / 10), (''technical'', 3 / 10)]\<rparr>))
        1
        \<lparr>positive_feedback = 3, negative_feedback = 0,
         learned_patterns = [(''content_high'', \<lparr>likes = 3, dislikes = 0\<rparr>)]\<rparr>)
     (\<lambda>(outcome, db). stored_weights db 1) =
     Some [(''content'', 8 / 10), (''design'', 7 / 10), (''technical'', 3 / 10)]"
  by (simp add: prefs_defs)

section \<open>The local classifier\<close>

text \<open>
  C5, as the claim states it, fails: a change record that has a diff but no
  \<^verbatim>\<open>site_name\<close> makes \<^verbatim>\<open>_basic_analysis\<close> raise \<^verbatim>\<open>KeyError\<close>, with no
  credentials configured.
\<close>

theorem analyze_without_site_name_raises:
  "analyze_change_importance None (Inl RemoteFailure) [''diff'' \<mapsto> ''abc''] =
     Inl (KeyError ''site_name'')"
  by (simp add: analyze_change_importance_def basic_analysis_def)

text \<open>
  C5, amended. For every change record that has a diff and a \<^verbatim>\<open>site_name\<close>, when the
  API key is \<^verbatim>\<open>None\<close> or empty, \<^verbatim>\<open>analyze_change_importance\<close> returns, and returns
  the local heuristic result: content/high for a diff of more than 2000 characters,
  design/medium for more than 500, technical/low otherwise; whatever the remote call
  would have come to.
\<close>

theorem analyze_without_credentials:
  assumes "api_key = None \<or> api_key = Some []"
    and "change_data ''diff'' = Some diff"
    and "change_data ''site_name'' = Some name"
  shows "analyze_change_importance api_key remote change_data =
    Inr \<lparr>a_category = Some (if length diff > 2000 then ''content''
                             else if length diff > 500 then ''design'' else ''technical''),
         a_importance = Some (if length diff > 2000 then ''high''
                               else if length diff > 500 then ''medium'' else ''low''),
         personal_importance_score = 1 / 2,
         key_aspects = [aspect_prefix @ str_nat (length diff) @ aspect_suffix],
         should_notify = True,
         reasoning = basic_reasoning,
         personalized_summary = basic_summary_prefix @ name\<rparr>"
  using assms
  by (auto simp: analyze_change_importance_def basic_analysis_def Let_def)

theorem analyze_without_credentials_witness:
  "analyze_change_importance None (Inl RemoteFailure)
      [''diff'' \<mapsto> replicate 2001 CHR ''+'', ''site_name'' \<mapsto> ''example.com''] =
    Inr \<lparr>a_category = Some ''content'',
         a_importance = Some ''high'',
         personal_importance_score = 1 / 2,
         key_aspects = [aspect_prefix @ str_nat 2001 @ aspect_suffix],
         should_notify = True,
         reasoning = basic_reasoning,
         personalized_summary = basic_summary_prefix @ ''example.com''\<rparr>"
  using analyze_without_credentials [of None
      "[''diff'' \<mapsto> replicate 2001 CHR ''+'', ''site_name'' \<mapsto> ''example.com'']"
      "replicate 2001 CHR ''+''" "''example.com''" "Inl RemoteFailure"]
  by simp

section \<open>The grouper\<close>

lemma create_summary_notification_shape:
  assumes "create_summary_notification now_id now notifications = Inr s"
  shows "is_summary s \<and>
    length (detailed_changes s) = length notifications \<and>
    detailed_changes s = map n_personalized_summary notifications \<and>
    py_max (map n_importance notifications) = Inr (n_importance s) \<and>
    (\<exists>main rest. notifications = main # rest \<and>
       title s = summary_title_prefix @ str_nat (length notifications) @
         summary_title_middle @ n_site_name main)"
  using assms
  by (cases notifications)
     (auto simp: create_summary_notification_def split: sum.splits)

lemma str_nat_two: "str_nat (Suc (Suc 0)) = ''2''"
proof -
  have "str_nat 2 = ''2''" by code_simp
  then show ?thesis by (simp add: numeral_2_eq_2)
qed

text \<open>
  C2. Two pending notifications for the same category and site, the first of importance
  \<open>high\<close> and the second \<open>medium\<close>, flush to one summary with two detail entries and the
  count 2 in its title, but its importance is \<open>medium\<close>: \<^verbatim>\<open>max\<close> compares the
  importance strings as text, where \<open>high\<close> is the least of the three levels. A group of
  \<open>high\<close> and \<open>low\<close> gets \<open>low\<close>.
\<close>

theorem summary_importance_is_textual_max:
  "fst (get_grouped_notifications
      [1 \<mapsto> [\<lparr>notification_id = ''1_100'', n_site_name = ''example.com'',
                 n_category = ''content'', n_importance = ''high'', title = ''t1'',
                 message = ''m1'', n_personalized_summary = ''first'', is_summary = False,
                 detailed_changes = [], timestamp = 100\<rparr>,
               \<lparr>notification_id = ''1_200'', n_site_name = ''example.com'',
                 n_category = ''content'', n_importance = ''medium'', title = ''t2'',
                 message = ''m2'', n_personalized_summary = ''second'', is_summary = False,
                 detailed_changes = [], timestamp = 200\<rparr>]]
      1 ''300.0'' 300) =
    Inr [\<lparr>notification_id = ''summary_300.0'', n_site_name = ''example.com'',
          n_category = ''content'', n_importance = ''medium'',
          title = summary_title_prefix @ ''2'' @ summary_title_middle @ ''example.com'',
          message = summary_message_prefix @ ''2'' @ summary_message_middle @ ''content.'',
          n_personalized_summary = [], is_summary = True,
          detailed_changes = [''first'', ''second''], timestamp = 300\<rparr>] \<and>
   py_max [''high'', ''low''] = Inr ''low'' \<and>
   py_max [''low'', ''medium'', ''high''] = Inr ''medium''"
  by (simp add: get_grouped_notifications_def group_append_def group_key_def
      create_summary_notification_def py_max_def str_nat_two Let_def)

section \<open>Site checks\<close>

lemma check_site_first_run:
  assumes "last_hash site = None" and "50 \<le> length text"
  shows "check_site digest differ now db site (Page text) =
      (update_site_hash db (site_id site) (digest text) text now, None)"
proof -
  from assms(2) have long: "\<not> (text = [] \<or> length text < 50)" by auto
  show ?thesis
    using long assms(1) by (simp add: check_site_def Let_def)
qed

lemma update_site_hash_member:
  assumes "site \<in> set (monitored_sites db)"
  shows "site\<lparr>last_hash := Some h, last_content := Some (take 100000 text),
         last_checked := Some now\<rparr>
      \<in> set (monitored_sites (update_site_hash db (site_id site) h text now))"
proof -
  let ?f = "\<lambda>row. if site_id row = site_id site
          then row\<lparr>last_hash := Some h, last_content := Some (take 100000 text),
                   last_checked := Some now\<rparr>
          else row"
  have "?f site \<in> ?f ` set (monitored_sites db)" using assms by (rule imageI)
  moreover have "monitored_sites (update_site_hash db (site_id site) h text now) =
      map ?f (monitored_sites db)"
    by (simp add: update_site_hash_def)
  ultimately show ?thesis by simp
qed

lemma update_site_hash_rows:
  assumes "row \<in> set (monitored_sites (update_site_hash db sid h text now))"
    and "site_id row = sid"
  shows "last_hash row = Some h \<and> last_checked row = Some now"
proof -
  let ?f = "\<lambda>r. if site_id r = sid
          then r\<lparr>last_hash := Some h, last_content := Some (take 100000 text),
                 last_checked := Some now\<rparr>
          else r"
  have "monitored_sites (update_site_hash db sid h text now) = map ?f (monitored_sites db)"
    by (simp add: update_site_hash_def)
  with assms(1) have "row \<in> ?f ` set (monitored_sites db)" by simp
  then obtain r where r: "row = ?f r" by (rule imageE)
  show ?thesis
  proof (cases "site_id r = sid")
    case True
    with r show ?thesis by simp
  next
    case False
    with r assms(2) show ?thesis by simp
  qed
qed

lemma update_site_hash_errors:
  "check_errors (update_site_hash db sid h text now) = check_errors db"
  by (simp add: update_site_hash_def)

text \<open>
  C4. The first check of a site (no stored hash) whose page gives at least 50 characters
  of text: nothing is scheduled for \<^verbatim>\<open>process_change\<close>, no error is recorded, and the
  stored row of the site now has the digest of the text as \<^verbatim>\<open>last_hash\<close>, the text
  (cut at 100000 characters) as \<^verbatim>\<open>last_content\<close> and the clock reading as
  \<^verbatim>\<open>last_checked\<close>.
\<close>

theorem first_check_sets_baseline:
  assumes "site \<in> set (monitored_sites db)"
    and "last_hash site = None"
    and "50 \<le> length text"
  shows "snd (check_site digest differ now db site (Page text)) = None \<and>
    check_errors (fst (check_site digest differ now db site (Page text))) = check_errors db \<and>
    site\<lparr>last_hash := Some (digest text), last_content := Some (take 100000 text),
         last_checked := Some now\<rparr>
      \<in> set (monitored_sites (fst (check_site digest differ now db site (Page text)))) \<and>
    (\<forall>row \<in> set (monitored_sites (fst (check_site digest differ now db site (Page text)))).
       site_id row = site_id site \<longrightarrow>
         last_hash row = Some (digest text) \<and> last_checked row = Some now)"
  unfolding check_site_first_run [OF assms(2,3)] fst_conv snd_conv
  using update_site_hash_member [OF assms(1)] update_site_hash_rows update_site_hash_errors
  by blast

theorem first_check_sets_baseline_witness:
  "50 \<le> length (replicate 60 CHR ''a'') \<and>
   snd (check_site rev (\<lambda>old new. Some new) 1000
      \<lparr>users = [\<lparr>u_user_id = 1, username = None, first_name = None, subscribed = True\<rparr>],
       monitored_sites =
         [\<lparr>site_id = 5, site_user_id = 1, url = ''https://example.com'',
           site_name = ''example.com'', css_selector = None, last_hash = None,
           last_content = None, check_interval = 10, enabled = True, last_checked = None\<rparr>],
       user_preferences = Map.empty, user_feedback = [], notification_history = [],
       check_errors = []\<rparr>
      \<lparr>site_id = 5, site_user_id = 1, url = ''https://example.com'',
       site_name = ''example.com'', css_selector = None, last_hash = None,
       last_content = None, check_interval = 10, enabled = True, last_checked = None\<rparr>
      (Page (replicate 60 CHR ''a''))) = None \<and>
   \<lparr>site_id = 5, site_user_id = 1, url = ''https://example.com'',
    site_name = ''example.com'', css_selector = None,
    last_hash = Some (rev (replicate 60 CHR ''a'')),
    last_content = Some (take 100000 (replicate 60 CHR ''a'')), check_interval = 10,
    enabled = True, last_checked = Some 1000\<rparr>
   \<in> set (monitored_sites (fst (check_site rev (\<lambda>old new. Some new) 1000
      \<lparr>users = [\<lparr>u_user_id = 1, username = None, first_name = None, subscribed = True\<rparr>],
       monitored_sites =
         [\<lparr>site_id = 5, site_user_id = 1, url = ''https://example.com'',
           site_name = ''example.com'', css_selector = None, last_hash = None,
           last_content = None, check_interval = 10, enabled = True, last_checked = None\<rparr>],
       user_preferences = Map.empty, user_feedback = [], notification_history = [],
       check_errors = []\<rparr>
      \<lparr>site_id = 5, site_user_id = 1, url = ''https://example.com'',
       site_name = ''example.com'', css_selector = None, last_hash = None,
       last_content = None, check_interval = 10, enabled = True, last_checked = None\<rparr>
      (Page (replicate 60 CHR ''a'')))))"
proof -
  let ?site = "\<lparr>site_id = 5, site_user_id = 1, url = ''https://example.com'',
       site_name = ''example.com'', css_selector = None, last_hash = None,
       last_content = None, check_interval = 10, enabled = True, last_checked = None\<rparr>"
  let ?db = "\<lparr>users = [\<lparr>u_user_id = 1, username = None, first_name = None, subscribed = True\<rparr>],
       monitored_sites = [?site],
       user_preferences = Map.empty, user_feedback = [], notification_history = [],
       check_errors = []\<rparr>"
  let ?text = "replicate 60 CHR ''a''"
  have h1: "?site \<in> set (monitored_sites ?db)" by simp
  have h2: "last_hash ?site = None" by simp
  have h3: "50 \<le> length ?text" by simp
  have upd: "?site\<lparr>last_hash := Some (rev ?text), last_content := Some (take 100000 ?text),
      last_checked := Some 1000\<rparr> =
    \<lparr>site_id = 5, site_user_id = 1, url = ''https://example.com'',
     site_name = ''example.com'', css_selector = None,
     last_hash = Some (rev ?text),
     last_content = Some (take 100000 ?text), check_interval = 10,
     enabled = True, last_checked = Some 1000\<rparr>"
    by (simp only: site_row.simps)
  note t = first_check_sets_baseline [OF h1 h2 h3, of rev "\<lambda>old new. Some new" 1000]
  from t have a: "snd (check_site rev (\<lambda>old new. Some new) 1000 ?db ?site (Page ?text)) = None"
    by (rule conjunct1)
  from t have b: "?site\<lparr>last_hash := Some (rev ?text), last_content := Some (take 100000 ?text),
      last_checked := Some 1000\<rparr>
      \<in> set (monitored_sites (fst (check_site rev (\<lambda>old new. Some new) 1000 ?db ?site (Page ?text))))"
    by (elim conjE)
  from h3 a b [unfolded upd] show ?thesis by (intro conjI)
qed

lemma check_site_short_run:
  assumes "length text < 50"
  shows "check_site digest differ now db site (Page text) = (db, None)"
  using assms by (simp add: check_site_def)

lemma still_due_later:
  assumes "site \<in> set (get_all_monitored_sites db now)"
    and "now \<le> now'"
  shows "site \<in> set (get_all_monitored_sites db now')"
  using assms
  by (auto simp: get_all_monitored_sites_def split: option.splits)

text \<open>
  C10. A check whose page gives fewer than 50 characters of text returns the database as
  it was (no row, no error record, no clock reading is written) and schedules nothing; a
  site that \<^verbatim>\<open>get_all_monitored_sites\<close> selected for this check is therefore selected
  again at every later clock reading.
\<close>

theorem short_text_changes_nothing:
  assumes "length text < 50"
    and "site \<in> set (get_all_monitored_sites db now)"
    and "now \<le> now'"
  shows "check_site digest differ now db site (Page text) = (db, None) \<and>
    site \<in> set (get_all_monitored_sites
      (fst (check_site digest differ now db site (Page text))) now')"
  unfolding check_site_short_run [OF assms(1)] fst_conv
  using still_due_later [OF assms(2,3)] by simp

theorem short_text_changes_nothing_witness:
  "length ''Not found'' < 50 \<and> (700 :: nat) \<le> 100000 \<and>
   check_site rev (\<lambda>old new. Some new) 700
      \<lparr>users = [\<lparr>u_user_id = 1, username = None, first_name = None, subscribed = True\<rparr>],
       monitored_sites =
         [\<lparr>site_id = 5, site_user_id = 1, url = ''https://example.com'',
           site_name = ''example.com'', css_selector = None, last_hash = Some ''abc'',
           last_content = Some ''old text'', check_interval = 10, enabled = True,
           last_checked = Some 50\<rparr>],
       user_preferences = Map.empty, user_feedback = [], notification_history = [],
       check_errors = []\<rparr>
      \<lparr>site_id = 5, site_user_id = 1, url = ''https://example.com'',
       site_name = ''example.com'', css_selector = None, last_hash = Some ''abc'',
       last_content = Some ''old text'', check_interval = 10, enabled = True,
       last_checked = Some 50\<rparr>
      (Page ''Not found'') =
     (\<lparr>users = [\<lparr>u_user_id = 1, username = None, first_name = None, subscribed = True\<rparr>],
       monitored_sites =
         [\<lparr>site_id = 5, site_user_id = 1, url = ''https://example.com'',
           site_name = ''example.com'', css_selector = None, last_hash = Some ''abc'',
           last_content = Some ''old text'', check_interval = 10, enabled = True,
           last_checked = Some 50\<rparr>],
       user_preferences = Map.empty, user_feedback = [], notification_history = [],
       check_errors = []\<rparr>, None) \<and>
   \<lparr>site_id = 5, site_user_id = 1, url = ''https://example.com'',
    site_name = ''example.com'', css_selector = None, last_hash = Some ''abc'',
    last_content = Some ''old text'', check_interval = 10, enabled = True,
    last_checked = Some 50\<rparr>
   \<in> set (get_all_monitored_sites
      (fst (check_site rev (\<lambda>old new. Some new) 700
        \<lparr>users = [\<lparr>u_user_id = 1, username = None, first_name = None, subscribed = True\<rparr>],
         monitored_sites =
           [\<lparr>site_id = 5, site_user_id = 1, url = ''https://example.com'',
             site_name = ''example.com'', css_selector = None, last_hash = Some ''abc'',
             last_content = Some ''old text'', check_interval = 10, enabled = True,
             last_checked = Some 50\<rparr>],
         user_preferences = Map.empty, user_feedback = [], notification_history = [],
         check_errors = []\<rparr>
        \<lparr>site_id = 5, site_user_id = 1, url = ''https://example.com'',
         site_name = ''example.com'', css_selector = None, last_hash = Some ''abc'',
         last_content = Some ''old text'', check_interval = 10, enabled = True,
         last_checked = Some 50\<rparr>
        (Page ''Not found''))) 100000)"
proof -
  let ?site = "\<lparr>site_id = 5, site_user_id = 1, url = ''https://example.com'',
       site_name = ''example.com'', css_selector = None, last_hash = Some ''abc'',
       last_content = Some ''old text'', check_interval = 10, enabled = True,
       last_checked = Some 50\<rparr>"
  let ?db = "\<lparr>users = [\<lparr>u_user_id = 1, username = None, first_name = None, subscribed = True\<rparr>],
       monitored_sites = [?site],
       user_preferences = Map.empty, user_feedback = [], notification_history = [],
       check_errors = []\<rparr>"
  have h1: "length ''Not found'' < 50" by simp
  have h2: "?site \<in> set (get_all_monitored_sites ?db 700)"
    by (simp add: get_all_monitored_sites_def)
  have h3: "(700 :: nat) \<le> 100000" by simp
  note t = short_text_changes_nothing [OF h1 h2 h3, of rev "\<lambda>old new. Some new"]
  from h1 h3 t show ?thesis by (intro conjI) (elim conjE, assumption)+
qed

end
